theory Spec2Isabelle
  imports Complex_Main "HOL-Library.AList"
begin

section \<open>Data model\<close>

text \<open>
  Payloads are JSON values (the service takes \<^verbatim>\<open>payload: any\<close> and the column is
  \<^verbatim>\<open>jsonb\<close>). An object is the list of its own properties.
\<close>

datatype json =
    JNull
  | JBool bool
  | JNum int
  | JStr string
  | JArr "json list"
  | JObj "(string \<times> json) list"

text \<open>\<^verbatim>\<open>ActionStatus\<close> of \<^verbatim>\<open>types/workflow.type.ts\<close>.\<close>

datatype action_status = PENDING | APPROVED | REJECTED

text \<open>
  Every failure of the source is a thrown \<^verbatim>\<open>Error\<close>; the constructors name the throw
  sites. \<open>TypeError\<close> is what the language throws when a method is called on a value
  that does not have it. \<open>IllTypedPayload\<close> stands for a handler's \<^verbatim>\<open>execute\<close>
  being handed a payload outside the TypeScript type of its parameter.
\<close>

datatype error =
    UnknownActionTypeError string
  | ValidationError string
  | NotFoundError string
  | AlreadyDecidedError action_status
  | SelfReviewError
  | ExecutionError string
  | TypeError string
  | IllTypedPayload

text \<open>Rows of the four tables (\<^verbatim>\<open>db/schema\<close>); timestamps are milliseconds.\<close>

record workflow_action =
  wa_id :: string
  wa_actionType :: string
  wa_status :: action_status
  wa_payload :: json
  wa_makerId :: string
  wa_checkerId :: "string option"
  wa_reviewComment :: "string option"
  wa_reviewedAt :: "int option"
  wa_createdAt :: int
  wa_updatedAt :: int

record user =
  u_id :: string
  u_email :: string
  u_username :: string
  u_password :: string
  u_fullName :: "string option"
  u_role :: string
  u_isActive :: bool
  u_createdAt :: int
  u_updatedAt :: int

record account =
  acc_id :: string
  acc_userId :: string
  acc_accountNumber :: string
  acc_accountType :: string
  acc_balance :: string
  acc_currency :: string
  acc_createdAt :: int
  acc_updatedAt :: int

record promotion =
  pr_id :: string
  pr_code :: string
  pr_name :: string
  pr_description :: "string option"
  pr_discountType :: string
  pr_discountValue :: string
  pr_isActive :: bool
  pr_startDate :: int
  pr_endDate :: int
  pr_createdAt :: int
  pr_updatedAt :: int

record database =
  workflowActions :: "workflow_action list"
  users :: "user list"
  accounts :: "account list"
  promotions :: "promotion list"

text \<open>
  What a call draws from outside the program: the identifier that
  \<^verbatim>\<open>gen_random_uuid()\<close> gives the row the call inserts, the database's
  \<^verbatim>\<open>now()\<close>, and the two \<^verbatim>\<open>new Date()\<close> values that \<^verbatim>\<open>reviewAction\<close> reads
  for \<^verbatim>\<open>reviewedAt\<close> and \<^verbatim>\<open>updatedAt\<close>.
\<close>

record env =
  random_uuid :: string
  db_now :: int
  date_reviewedAt :: int
  date_updatedAt :: int

text \<open>
  Library functions the validators call: \<^verbatim>\<open>Date.parse\<close> (\<open>None\<close> is \<^verbatim>\<open>NaN\<close>) and
  zod's \<^verbatim>\<open>email()\<close> and \<^verbatim>\<open>uuid()\<close> format checks.
\<close>

record runtime =
  date_parse :: "string \<Rightarrow> int option"
  is_email :: "string \<Rightarrow> bool"
  is_uuid :: "string \<Rightarrow> bool"

section \<open>Action handlers\<close>

datatype exec_result =
    UserRow user
  | AccountRow account
  | PromotionRow promotion
  | OtherResult json

text \<open>
  \<^verbatim>\<open>interface ActionHandler\<close>: \<^verbatim>\<open>validate(payload)\<close> returns or throws;
  \<^verbatim>\<open>execute(db, payload)\<close> may write to the database and returns a row or throws.
\<close>

record handler =
  validate :: "json \<Rightarrow> error + unit"
  execute :: "env \<Rightarrow> database \<Rightarrow> json \<Rightarrow> database \<times> (error + exec_result)"

subsection \<open>Reading a JSON payload\<close>

fun get_field :: "json \<Rightarrow> string \<Rightarrow> json option" where
  "get_field (JObj kvs) k = map_of kvs k"
| "get_field _ k = None"

text \<open>A required string property, and an optional one (absent, or a string).\<close>

fun required_string :: "json option \<Rightarrow> string option" where
  "required_string (Some (JStr s)) = Some s"
| "required_string _ = None"

fun optional_string :: "json option \<Rightarrow> string option option" where
  "optional_string None = Some None"
| "optional_string (Some (JStr s)) = Some (Some s)"
| "optional_string (Some _) = None"

fun is_object :: "json \<Rightarrow> bool" where
  "is_object (JObj kvs) = True"
| "is_object _ = False"

subsection \<open>The regular expression \<^verbatim>\<open>/^\d+(\.\d{1,2})?$/\<close> and \<^verbatim>\<open>parseFloat\<close>\<close>

definition is_digit :: "char \<Rightarrow> bool" where
  "is_digit c = (c \<in> set ''0123456789'')"

definition matches_decimal :: "string \<Rightarrow> bool" where
  "matches_decimal s =
     (let ip = takeWhile is_digit s; rest = dropWhile is_digit s
      in ip \<noteq> [] \<and>
         (case rest of
            [] \<Rightarrow> True
          | c # fp \<Rightarrow> c = CHR ''.'' \<and> (length fp = 1 \<or> length fp = 2) \<and> list_all is_digit fp))"

definition digit_value :: "char \<Rightarrow> nat" where
  "digit_value c = of_char c - of_char CHR ''0''"

definition digits_value :: "string \<Rightarrow> nat" where
  "digits_value ds = foldl (\<lambda>a c. 10 * a + digit_value c) 0 ds"

text \<open>
  \<^verbatim>\<open>parseFloat\<close> on the strings the regular expression admits (digits, then optionally
  a point and digits); \<open>None\<close> is \<^verbatim>\<open>NaN\<close>. The value is the exact decimal: rounding to
  a double is monotone and keeps 0 and 100, so the comparisons with 0 and 100 below
  come out the same.
\<close>

definition parseFloat :: "string \<Rightarrow> rat option" where
  "parseFloat s =
     (let ip = takeWhile is_digit s; rest = dropWhile is_digit s
      in if ip = [] then None
         else (case rest of
                 [] \<Rightarrow> Some (of_nat (digits_value ip))
               | c # fp \<Rightarrow>
                   if c = CHR ''.''
                   then (let fd = takeWhile is_digit fp
                         in Some (of_nat (digits_value ip) +
                                  of_nat (digits_value fd) / 10 ^ length fd))
                   else Some (of_nat (digits_value ip))))"

subsection \<open>Payload types\<close>

text \<open>
  The TypeScript payload interfaces. The \<open>as_\<close> functions read a JSON payload at such
  a type: the properties of the interface with their types, other properties ignored
  (zod's \<^verbatim>\<open>z.object\<close> checks the same shape and strips the rest).
\<close>

record create_user_payload =
  cu_email :: string
  cu_username :: string
  cu_fullName :: "string option"

record create_account_payload =
  ca_userId :: string
  ca_accountNumber :: string
  ca_accountType :: string
  ca_balance :: "string option"
  ca_currency :: "string option"

record create_promotion_payload =
  cp_code :: string
  cp_name :: string
  cp_description :: "string option"
  cp_discountType :: string
  cp_discountValue :: string
  cp_startDate :: string
  cp_endDate :: string

definition as_CreateUserPayload :: "json \<Rightarrow> create_user_payload option" where
  "as_CreateUserPayload p =
     (if \<not> is_object p then None
      else case (required_string (get_field p ''email''),
                 required_string (get_field p ''username''),
                 optional_string (get_field p ''fullName'')) of
             (Some e, Some u, Some f) \<Rightarrow>
               Some \<lparr>cu_email = e, cu_username = u, cu_fullName = f\<rparr>
           | _ \<Rightarrow> None)"

definition as_CreateAccountPayload :: "json \<Rightarrow> create_account_payload option" where
  "as_CreateAccountPayload p =
     (if \<not> is_object p then None
      else case (required_string (get_field p ''userId''),
                 required_string (get_field p ''accountNumber''),
                 required_string (get_field p ''accountType''),
                 optional_string (get_field p ''balance''),
                 optional_string (get_field p ''currency'')) of
             (Some u, Some n, Some t, Some b, Some c) \<Rightarrow>
               Some \<lparr>ca_userId = u, ca_accountNumber = n, ca_accountType = t,
                     ca_balance = b, ca_currency = c\<rparr>
           | _ \<Rightarrow> None)"

definition as_CreatePromotionPayload :: "json \<Rightarrow> create_promotion_payload option" where
  "as_CreatePromotionPayload p =
     (if \<not> is_object p then None
      else case (required_string (get_field p ''code''),
                 required_string (get_field p ''name''),
                 optional_string (get_field p ''description''),
                 required_string (get_field p ''discountType''),
                 required_string (get_field p ''discountValue''),
                 required_string (get_field p ''startDate''),
                 required_string (get_field p ''endDate'')) of
             (Some c, Some n, Some d, Some t, Some v, Some s, Some e) \<Rightarrow>
               Some \<lparr>cp_code = c, cp_name = n, cp_description = d, cp_discountType = t,
                     cp_discountValue = v, cp_startDate = s, cp_endDate = e\<rparr>
           | _ \<Rightarrow> None)"

subsection \<open>The zod schemas of \<^verbatim>\<open>validators/workflow.validator.ts\<close>\<close>

text \<open>\<^verbatim>\<open>safeParse(payload).success\<close> for the three payload schemas.\<close>

definition createUserSchema :: "runtime \<Rightarrow> json \<Rightarrow> bool" where
  "createUserSchema rt p =
     (case as_CreateUserPayload p of
        None \<Rightarrow> False
      | Some u \<Rightarrow> is_email rt (cu_email u) \<and> 3 \<le> length (cu_username u))"

definition createAccountSchema :: "runtime \<Rightarrow> json \<Rightarrow> bool" where
  "createAccountSchema rt p =
     (case as_CreateAccountPayload p of
        None \<Rightarrow> False
      | Some a \<Rightarrow>
          is_uuid rt (ca_userId a) \<and> 5 \<le> length (ca_accountNumber a) \<and>
          1 \<le> length (ca_accountType a) \<and>
          (case ca_balance a of None \<Rightarrow> True | Some b \<Rightarrow> matches_decimal b) \<and>
          (case ca_currency a of None \<Rightarrow> True | Some c \<Rightarrow> length c = 3))"

definition dateString :: "runtime \<Rightarrow> string \<Rightarrow> bool" where
  "dateString rt v = (date_parse rt v \<noteq> None)"

definition createPromotionSchema :: "runtime \<Rightarrow> json \<Rightarrow> bool" where
  "createPromotionSchema rt p =
     (case as_CreatePromotionPayload p of
        None \<Rightarrow> False
      | Some q \<Rightarrow>
          3 \<le> length (cp_code q) \<and> 1 \<le> length (cp_name q) \<and>
          (cp_discountType q = ''percentage'' \<or> cp_discountType q = ''fixed'') \<and>
          matches_decimal (cp_discountValue q) \<and>
          dateString rt (cp_startDate q) \<and> dateString rt (cp_endDate q))"

subsection \<open>\<^verbatim>\<open>CreateUserHandler\<close>\<close>

definition CreateUserHandler_validate :: "runtime \<Rightarrow> json \<Rightarrow> error + unit" where
  "CreateUserHandler_validate rt payload =
     (if \<not> createUserSchema rt payload then Inl (ValidationError ''Validation failed'')
      else Inr ())"

definition default_password_hash :: string where
  "default_password_hash = ''$2b$10$4cXn4kdl6v36ARMmUZ0nvOCBGGUKtWk5X.lZRsXWLn/GgQFqaTGRe''"

definition CreateUserHandler_execute ::
  "env \<Rightarrow> database \<Rightarrow> create_user_payload \<Rightarrow> database \<times> (error + exec_result)" where
  "CreateUserHandler_execute e db payload =
     (case find (\<lambda>u. u_email u = cu_email payload) (users db) of
        Some existingUser \<Rightarrow>
          (db, Inl (ExecutionError (''User with email '' @ cu_email payload @ '' already exists'')))
      | None \<Rightarrow>
          (case find (\<lambda>u. u_username u = cu_username payload) (users db) of
             Some existingUsername \<Rightarrow>
               (db, Inl (ExecutionError
                          (''Username '' @ cu_username payload @ '' is already taken'')))
           | None \<Rightarrow>
               (let newUser = \<lparr>u_id = random_uuid e,
                               u_email = cu_email payload,
                               u_username = cu_username payload,
                               u_password = default_password_hash,
                               u_fullName = cu_fullName payload,
                               u_role = ''MAKER'',
                               u_isActive = True,
                               u_createdAt = db_now e,
                               u_updatedAt = db_now e\<rparr>
                in (db\<lparr>users := users db @ [newUser]\<rparr>, Inr (UserRow newUser)))))"

definition CreateUserHandler :: "runtime \<Rightarrow> handler" where
  "CreateUserHandler rt =
     \<lparr>validate = CreateUserHandler_validate rt,
      execute = (\<lambda>e db p. case as_CreateUserPayload p of
                             None \<Rightarrow> (db, Inl IllTypedPayload)
                           | Some payload \<Rightarrow> CreateUserHandler_execute e db payload)\<rparr>"

subsection \<open>\<^verbatim>\<open>CreateAccountHandler\<close>\<close>

definition CreateAccountHandler_validate :: "runtime \<Rightarrow> json \<Rightarrow> error + unit" where
  "CreateAccountHandler_validate rt payload =
     (if \<not> createAccountSchema rt payload then Inl (ValidationError ''Validation failed'')
      else Inr ())"

text \<open>\<^verbatim>\<open>x || d\<close> on an optional string: the default for \<^verbatim>\<open>undefined\<close> and for \<^verbatim>\<open>''\<close>.\<close>

definition or_default :: "string option \<Rightarrow> string \<Rightarrow> string" where
  "or_default x d = (case x of None \<Rightarrow> d | Some s \<Rightarrow> if s = [] then d else s)"

definition CreateAccountHandler_execute ::
  "env \<Rightarrow> database \<Rightarrow> create_account_payload \<Rightarrow> database \<times> (error + exec_result)" where
  "CreateAccountHandler_execute e db payload =
     (case find (\<lambda>u. u_id u = ca_userId payload) (users db) of
        None \<Rightarrow>
          (db, Inl (ExecutionError (''User with ID '' @ ca_userId payload @ '' does not exist'')))
      | Some user \<Rightarrow>
          (case find (\<lambda>a. acc_accountNumber a = ca_accountNumber payload) (accounts db) of
             Some existingAccount \<Rightarrow>
               (db, Inl (ExecutionError
                          (''Account with number '' @ ca_accountNumber payload @
                           '' already exists'')))
           | None \<Rightarrow>
               (let newAccount = \<lparr>acc_id = random_uuid e,
                                  acc_userId = ca_userId payload,
                                  acc_accountNumber = ca_accountNumber payload,
                                  acc_accountType = ca_accountType payload,
                                  acc_balance = or_default (ca_balance payload) ''0'',
                                  acc_currency = or_default (ca_currency payload) ''USD'',
                                  acc_createdAt = db_now e,
                                  acc_updatedAt = db_now e\<rparr>
                in (db\<lparr>accounts := accounts db @ [newAccount]\<rparr>,
                    Inr (AccountRow newAccount)))))"

definition CreateAccountHandler :: "runtime \<Rightarrow> handler" where
  "CreateAccountHandler rt =
     \<lparr>validate = CreateAccountHandler_validate rt,
      execute = (\<lambda>e db p. case as_CreateAccountPayload p of
                             None \<Rightarrow> (db, Inl IllTypedPayload)
                           | Some payload \<Rightarrow> CreateAccountHandler_execute e db payload)\<rparr>"

subsection \<open>\<^verbatim>\<open>CreatePromotionHandler\<close>\<close>

text \<open>
  \<^verbatim>\<open>validate\<close>: the schema, then \<^verbatim>\<open>endDate <= startDate\<close> on the two
  \<^verbatim>\<open>new Date(...)\<close> values, then the discount rules on \<^verbatim>\<open>parseFloat(discountValue)\<close>.
  A comparison with \<^verbatim>\<open>NaN\<close> is false.
\<close>

definition date_le :: "int option \<Rightarrow> int option \<Rightarrow> bool" where
  "date_le a b = (case (a, b) of (Some x, Some y) \<Rightarrow> x \<le> y | _ \<Rightarrow> False)"

definition num_lt :: "rat option \<Rightarrow> rat \<Rightarrow> bool" where
  "num_lt a y = (case a of Some x \<Rightarrow> x < y | None \<Rightarrow> False)"

definition num_gt :: "rat option \<Rightarrow> rat \<Rightarrow> bool" where
  "num_gt a y = (case a of Some x \<Rightarrow> y < x | None \<Rightarrow> False)"

definition CreatePromotionHandler_validate :: "runtime \<Rightarrow> json \<Rightarrow> error + unit" where
  "CreatePromotionHandler_validate rt payload =
     (if \<not> createPromotionSchema rt payload then Inl (ValidationError ''Validation failed'')
      else case as_CreatePromotionPayload payload of
        None \<Rightarrow> Inl (ValidationError ''Validation failed'')
      | Some p \<Rightarrow>
         (let startDate = date_parse rt (cp_startDate p);
              endDate = date_parse rt (cp_endDate p)
          in if date_le endDate startDate
             then Inl (ValidationError ''End date must be after start date'')
             else (let discountValue = parseFloat (cp_discountValue p)
                   in if cp_discountType p = ''percentage'' \<and>
                         (num_lt discountValue 0 \<or> num_gt discountValue 100)
                      then Inl (ValidationError ''Percentage discount must be between 0 and 100'')
                      else if cp_discountType p = ''fixed'' \<and> num_lt discountValue 0
                      then Inl (ValidationError ''Fixed discount cannot be negative'')
                      else Inr ())))"

definition CreatePromotionHandler_execute ::
  "runtime \<Rightarrow> env \<Rightarrow> database \<Rightarrow> create_promotion_payload \<Rightarrow>
   database \<times> (error + exec_result)" where
  "CreatePromotionHandler_execute rt e db payload =
     (case find (\<lambda>p. pr_code p = cp_code payload) (promotions db) of
        Some existingPromotion \<Rightarrow>
          (db, Inl (ExecutionError
                     (''Promotion with code '' @ cp_code payload @ '' already exists'')))
      | None \<Rightarrow>
          (case (date_parse rt (cp_startDate payload), date_parse rt (cp_endDate payload)) of
             (Some startDate, Some endDate) \<Rightarrow>
               (let newPromotion = \<lparr>pr_id = random_uuid e,
                                    pr_code = cp_code payload,
                                    pr_name = cp_name payload,
                                    pr_description = cp_description payload,
                                    pr_discountType = cp_discountType payload,
                                    pr_discountValue = cp_discountValue payload,
                                    pr_isActive = True,
                                    pr_startDate = startDate,
                                    pr_endDate = endDate,
                                    pr_createdAt = db_now e,
                                    pr_updatedAt = db_now e\<rparr>
                in (db\<lparr>promotions := promotions db @ [newPromotion]\<rparr>,
                    Inr (PromotionRow newPromotion)))
           | _ \<Rightarrow> (db, Inl (ExecutionError ''Invalid time value''))))"

definition CreatePromotionHandler :: "runtime \<Rightarrow> handler" where
  "CreatePromotionHandler rt =
     \<lparr>validate = CreatePromotionHandler_validate rt,
      execute = (\<lambda>e db p. case as_CreatePromotionPayload p of
                             None \<Rightarrow> (db, Inl IllTypedPayload)
                           | Some payload \<Rightarrow> CreatePromotionHandler_execute rt e db payload)\<rparr>"

section \<open>\<^verbatim>\<open>ActionHandlerFactory\<close>\<close>

text \<open>
  The static \<^verbatim>\<open>handlers\<close> is a plain object used as a dictionary: its own
  properties in creation order, and its prototype, which is \<^verbatim>\<open>Object.prototype\<close>
  (\<open>None\<close>) until an assignment to \<^verbatim>\<open>__proto__\<close> makes a handler object the
  prototype. It belongs to the class, not to a service instance, so every operation
  below takes it as the one registry of the process.
\<close>

record registry =
  own_handlers :: "(string \<times> handler) list"
  proto_handler :: "handler option"

definition initial_handlers :: "runtime \<Rightarrow> registry" where
  "initial_handlers rt =
     \<lparr>own_handlers = [(''create_user'', CreateUserHandler rt),
                      (''create_account'', CreateAccountHandler rt),
                      (''create_promotion'', CreatePromotionHandler rt)],
      proto_handler = None\<rparr>"

text \<open>
  What reading a property gives: a handler object, or some other value that is not
  \<^verbatim>\<open>undefined\<close> (a function or object found on the prototype chain).
\<close>

datatype property = HandlerObject handler | OtherValue

definition object_prototype_names :: "string list" where
  "object_prototype_names =
     [''constructor'', ''__defineGetter__'', ''__defineSetter__'', ''hasOwnProperty'',
      ''__lookupGetter__'', ''__lookupSetter__'', ''isPrototypeOf'', ''propertyIsEnumerable'',
      ''toString'', ''valueOf'', ''__proto__'', ''toLocaleString'']"

text \<open>
  A handler object is taken to be an ordinary instance: its members are the two methods
  of the interface and what it inherits from \<^verbatim>\<open>Object.prototype\<close>, all writable.
\<close>

definition handler_member_names :: "string list" where
  "handler_member_names = [''validate'', ''execute'']"

definition inherited_names :: "registry \<Rightarrow> string list" where
  "inherited_names reg =
     (case proto_handler reg of
        None \<Rightarrow> object_prototype_names
      | Some hp \<Rightarrow> handler_member_names @ object_prototype_names)"

text \<open>
  \<^verbatim>\<open>this.handlers[k]\<close>: an own property first, then the prototype chain, where
  \<^verbatim>\<open>__proto__\<close> is the accessor that returns the prototype itself. \<open>None\<close> is
  \<^verbatim>\<open>undefined\<close>.
\<close>

definition get_property :: "registry \<Rightarrow> string \<Rightarrow> property option" where
  "get_property reg k =
     (case map_of (own_handlers reg) k of
        Some h \<Rightarrow> Some (HandlerObject h)
      | None \<Rightarrow>
          if k = ''__proto__''
          then (case proto_handler reg of
                  None \<Rightarrow> Some OtherValue
                | Some hp \<Rightarrow> Some (HandlerObject hp))
          else if k \<in> set (inherited_names reg) then Some OtherValue
          else None)"

text \<open>
  \<^verbatim>\<open>getHandler\<close> throws when the property read is falsy, and returns whatever it read
  otherwise.
\<close>

definition getHandler :: "registry \<Rightarrow> string \<Rightarrow> error + property" where
  "getHandler handlers actionType =
     (case get_property handlers actionType of
        None \<Rightarrow> Inl (UnknownActionTypeError actionType)
      | Some handler \<Rightarrow> Inr handler)"

text \<open>
  \<^verbatim>\<open>this.handlers[actionType] = handler\<close>: an own property is overwritten in place;
  otherwise the name \<^verbatim>\<open>__proto__\<close> reaches the setter of \<^verbatim>\<open>Object.prototype\<close>,
  which replaces the prototype, and any other name becomes a new own property.
\<close>

definition registerHandler :: "registry \<Rightarrow> string \<Rightarrow> handler \<Rightarrow> registry" where
  "registerHandler handlers actionType h =
     (if map_of (own_handlers handlers) actionType = None \<and> actionType = ''__proto__''
      then handlers\<lparr>proto_handler := Some h\<rparr>
      else handlers\<lparr>own_handlers := AList.update actionType h (own_handlers handlers)\<rparr>)"

text \<open>
  \<^verbatim>\<open>Object.keys\<close>: the own keys that are array indices (canonical decimal numerals
  below 4294967295) in ascending order, then the other own keys in creation order.
\<close>

definition is_array_index :: "string \<Rightarrow> bool" where
  "is_array_index k =
     (k \<noteq> [] \<and> list_all is_digit k \<and> (if hd k = CHR ''0'' then k = ''0'' else True) \<and>
      digits_value k < 4294967295)"

definition getAllActionTypes :: "registry \<Rightarrow> string list" where
  "getAllActionTypes handlers =
     (let keys = map fst (own_handlers handlers)
      in sort_key digits_value (filter is_array_index keys) @
         filter (\<lambda>k. \<not> is_array_index k) keys)"

section \<open>\<^verbatim>\<open>WorkflowService\<close>\<close>

definition createAction ::
  "registry \<Rightarrow> env \<Rightarrow> database \<Rightarrow> string \<Rightarrow> json \<Rightarrow> string \<Rightarrow>
   database \<times> (error + workflow_action)" where
  "createAction handlers e db actionType payload makerId =
     (case getHandler handlers actionType of
        Inl err \<Rightarrow> (db, Inl err)
      | Inr OtherValue \<Rightarrow> (db, Inl (TypeError ''handler.validate is not a function''))
      | Inr (HandlerObject h) \<Rightarrow>
          (case validate h payload of
             Inl err \<Rightarrow> (db, Inl err)
           | Inr _ \<Rightarrow>
               (let action = \<lparr>wa_id = random_uuid e,
                              wa_actionType = actionType,
                              wa_status = PENDING,
                              wa_payload = payload,
                              wa_makerId = makerId,
                              wa_checkerId = None,
                              wa_reviewComment = None,
                              wa_reviewedAt = None,
                              wa_createdAt = db_now e,
                              wa_updatedAt = db_now e\<rparr>
                in (db\<lparr>workflowActions := workflowActions db @ [action]\<rparr>, Inr action))))"

definition getActionById :: "database \<Rightarrow> string \<Rightarrow> error + workflow_action" where
  "getActionById db actionId =
     (case find (\<lambda>a. wa_id a = actionId) (workflowActions db) of
        None \<Rightarrow> Inl (NotFoundError actionId)
      | Some action \<Rightarrow> Inr action)"

text \<open>
  \<^verbatim>\<open>reviewAction\<close> awaits three times; each part below runs between two awaits.
  \<open>review_check\<close> is lines 99 to 110: the read and the two guards.
\<close>

definition review_check :: "database \<Rightarrow> string \<Rightarrow> string \<Rightarrow> error + workflow_action" where
  "review_check db actionId checkerId =
     (case getActionById db actionId of
        Inl err \<Rightarrow> Inl err
      | Inr action \<Rightarrow>
          if wa_status action \<noteq> PENDING then Inl (AlreadyDecidedError (wa_status action))
          else if wa_makerId action = checkerId then Inl SelfReviewError
          else Inr action)"

text \<open>
  Lines 112 to 123: \<^verbatim>\<open>update(workflowActions).set({...}).where(eq(id, actionId))\<close>.
  Every row with the id is written; a key of \<^verbatim>\<open>set\<close> whose value is
  \<^verbatim>\<open>undefined\<close> is left out of the statement, so an absent comment keeps the column.
  \<^verbatim>\<open>returning()\<close> gives the written rows and \<open>updatedAction\<close> is the first of them.
\<close>

definition set_review ::
  "env \<Rightarrow> string \<Rightarrow> action_status \<Rightarrow> string option \<Rightarrow> workflow_action \<Rightarrow> workflow_action" where
  "set_review e checkerId status reviewComment a =
     a\<lparr>wa_status := status,
       wa_checkerId := Some checkerId,
       wa_reviewComment := (case reviewComment of None \<Rightarrow> wa_reviewComment a | Some c \<Rightarrow> Some c),
       wa_reviewedAt := Some (date_reviewedAt e),
       wa_updatedAt := date_updatedAt e\<rparr>"

definition review_update ::
  "env \<Rightarrow> database \<Rightarrow> string \<Rightarrow> string \<Rightarrow> action_status \<Rightarrow> string option \<Rightarrow>
   database \<times> workflow_action option" where
  "review_update e db actionId checkerId status reviewComment =
     (let rows = map (\<lambda>a. if wa_id a = actionId
                           then set_review e checkerId status reviewComment a else a)
                     (workflowActions db)
      in (db\<lparr>workflowActions := rows\<rparr>, find (\<lambda>a. wa_id a = actionId) rows))"

record review_result =
  rr_action :: "workflow_action option"
  rr_executionResult :: "exec_result option"

text \<open>Lines 125 to 138: on approval, the handler of the action read at the start.\<close>

definition review_execute ::
  "registry \<Rightarrow> env \<Rightarrow> database \<Rightarrow> workflow_action \<Rightarrow> workflow_action option \<Rightarrow>
   action_status \<Rightarrow> database \<times> (error + review_result)" where
  "review_execute handlers e db action updatedAction status =
     (if status = APPROVED then
        (case getHandler handlers (wa_actionType action) of
           Inl err \<Rightarrow> (db, Inl err)
         | Inr OtherValue \<Rightarrow> (db, Inl (TypeError ''handler.execute is not a function''))
         | Inr (HandlerObject h) \<Rightarrow>
             (case execute h e db (wa_payload action) of
                (db', Inl err) \<Rightarrow> (db', Inl err)
              | (db', Inr result) \<Rightarrow>
                  (db', Inr \<lparr>rr_action = updatedAction, rr_executionResult = Some result\<rparr>)))
      else (db, Inr \<lparr>rr_action = updatedAction, rr_executionResult = None\<rparr>))"

definition reviewAction ::
  "registry \<Rightarrow> env \<Rightarrow> database \<Rightarrow> string \<Rightarrow> string \<Rightarrow> action_status \<Rightarrow> string option \<Rightarrow>
   database \<times> (error + review_result)" where
  "reviewAction handlers e db actionId checkerId status reviewComment =
     (case review_check db actionId checkerId of
        Inl err \<Rightarrow> (db, Inl err)
      | Inr action \<Rightarrow>
          (case review_update e db actionId checkerId status reviewComment of
             (db1, updatedAction) \<Rightarrow>
               review_execute handlers e db1 action updatedAction status))"

section \<open>\<^verbatim>\<open>WorkflowController.reviewAction\<close>\<close>

text \<open>
  \<^verbatim>\<open>reviewActionSchema\<close>: \<^verbatim>\<open>status\<close> one of \<^verbatim>\<open>approved\<close> and \<^verbatim>\<open>rejected\<close>,
  \<^verbatim>\<open>checkerId\<close> a string of at least one character, \<^verbatim>\<open>reviewComment\<close> an optional
  string. \<open>None\<close> is the 400 response.
\<close>

record review_request =
  rq_status :: action_status
  rq_checkerId :: string
  rq_reviewComment :: "string option"

definition reviewActionSchema :: "json \<Rightarrow> review_request option" where
  "reviewActionSchema body =
     (if \<not> is_object body then None
      else case (required_string (get_field body ''status''),
                 required_string (get_field body ''checkerId''),
                 optional_string (get_field body ''reviewComment'')) of
             (Some s, Some c, Some r) \<Rightarrow>
               if (s = ''approved'' \<or> s = ''rejected'') \<and> 1 \<le> length c
               then Some \<lparr>rq_status = (if s = ''approved'' then APPROVED else REJECTED),
                          rq_checkerId = c, rq_reviewComment = r\<rparr>
               else None
           | _ \<Rightarrow> None)"

text \<open>
  The controller: an empty id or a body the schema refuses is answered 400 without
  calling the service; otherwise the service's outcome is the response (an error
  becomes a 404 or 500 response carrying its message).
\<close>

datatype 'a response = BadRequest | Served 'a

definition controller_reviewAction ::
  "registry \<Rightarrow> env \<Rightarrow> database \<Rightarrow> string \<Rightarrow> json \<Rightarrow>
   database \<times> (error + review_result) response" where
  "controller_reviewAction handlers e db actionId body =
     (if actionId = [] then (db, BadRequest)
      else case reviewActionSchema body of
        None \<Rightarrow> (db, BadRequest)
      | Some rq \<Rightarrow>
          (case reviewAction handlers e db actionId (rq_checkerId rq) (rq_status rq)
                  (rq_reviewComment rq) of
             (db', r) \<Rightarrow> (db', Served r)))"

section \<open>Overlapping \<^verbatim>\<open>reviewAction\<close> calls\<close>

text \<open>
  Calls of an asynchronous function interleave at its awaits. A call in progress is at
  one of four points; a step runs the part of \<^verbatim>\<open>reviewAction\<close> up to the next await
  on the shared database.
\<close>

record review_call =
  rc_env :: env
  rc_actionId :: string
  rc_checkerId :: string
  rc_status :: action_status
  rc_reviewComment :: "string option"

datatype call_state =
    Start
  | Checked workflow_action
  | Updated workflow_action "workflow_action option"
  | Finished "error + review_result"

fun call_step ::
  "registry \<Rightarrow> review_call \<Rightarrow> database \<Rightarrow> call_state \<Rightarrow> database \<times> call_state" where
  "call_step handlers c db Start =
     (case review_check db (rc_actionId c) (rc_checkerId c) of
        Inl err \<Rightarrow> (db, Finished (Inl err))
      | Inr action \<Rightarrow> (db, Checked action))"
| "call_step handlers c db (Checked action) =
     (case review_update (rc_env c) db (rc_actionId c) (rc_checkerId c) (rc_status c)
             (rc_reviewComment c) of
        (db1, updatedAction) \<Rightarrow> (db1, Updated action updatedAction))"
| "call_step handlers c db (Updated action updatedAction) =
     (case review_execute handlers (rc_env c) db action updatedAction (rc_status c) of
        (db2, r) \<Rightarrow> (db2, Finished r))"
| "call_step handlers c db (Finished r) = (db, Finished r)"

text \<open>A schedule names, step by step, the call that runs next.\<close>

fun run_schedule ::
  "registry \<Rightarrow> review_call list \<Rightarrow> nat list \<Rightarrow> database \<times> call_state list \<Rightarrow>
   database \<times> call_state list" where
  "run_schedule handlers calls [] (db, states) = (db, states)"
| "run_schedule handlers calls (i # schedule) (db, states) =
     (if i < length calls \<and> i < length states then
        (case call_step handlers (calls ! i) db (states ! i) of
           (db', st') \<Rightarrow> run_schedule handlers calls schedule (db', states[i := st']))
      else run_schedule handlers calls schedule (db, states))"

section \<open>Sequences of service calls\<close>

datatype request =
    Create env string json string
  | Review env string string action_status "string option"

fun apply_request :: "registry \<Rightarrow> database \<Rightarrow> request \<Rightarrow> database" where
  "apply_request handlers db (Create e actionType payload makerId) =
     fst (createAction handlers e db actionType payload makerId)"
| "apply_request handlers db (Review e actionId checkerId status reviewComment) =
     fst (reviewAction handlers e db actionId checkerId status reviewComment)"

definition run_requests :: "registry \<Rightarrow> database \<Rightarrow> request list \<Rightarrow> database" where
  "run_requests handlers db rs = foldl (apply_request handlers) db rs"

text \<open>
  The three handlers of the source write to their own tables only. A handler registered
  later is handed the whole database; \<open>keeps_actions\<close> says that no registered
  handler writes to \<^verbatim>\<open>workflow_actions\<close>.
\<close>

definition keeps_actions :: "registry \<Rightarrow> bool" where
  "keeps_actions handlers =
     (\<forall>t h e db p. getHandler handlers t = Inr (HandlerObject h) \<longrightarrow>
        workflowActions (fst (execute h e db p)) = workflowActions db)"

section \<open>Sample data\<close>

text \<open>
  A runtime that agrees with \<^verbatim>\<open>Date.parse\<close> and with zod's format checks on the
  strings used below, and the states of a short history: the same user submitted twice
  by maker \<^verbatim>\<open>m1\<close>, then the first submission approved by checker \<^verbatim>\<open>c1\<close>.
\<close>

definition sample_runtime :: runtime where
  "sample_runtime =
     \<lparr>date_parse = (\<lambda>s. if s = ''2024-01-01'' then Some 1704067200000
                          else if s = ''2024-12-31'' then Some 1735603200000
                          else None),
      is_email = (\<lambda>s. s = ''a@x.com''),
      is_uuid = (\<lambda>s. s = ''6366612b-00c9-4cbd-abd7-da61d1264245'')\<rparr>"

definition sample_handlers :: registry where
  "sample_handlers = initial_handlers sample_runtime"

definition empty_db :: database where
  "empty_db = \<lparr>workflowActions = [], users = [], accounts = [], promotions = []\<rparr>"

definition env1 :: env where
  "env1 = \<lparr>random_uuid = ''wa-1'', db_now = 1000, date_reviewedAt = 1000, date_updatedAt = 1000\<rparr>"

definition env2 :: env where
  "env2 = \<lparr>random_uuid = ''wa-2'', db_now = 2000, date_reviewedAt = 2000, date_updatedAt = 2000\<rparr>"

definition env3 :: env where
  "env3 = \<lparr>random_uuid = ''u-1'', db_now = 3000, date_reviewedAt = 3000, date_updatedAt = 3001\<rparr>"

definition env4 :: env where
  "env4 = \<lparr>random_uuid = ''u-2'', db_now = 4000, date_reviewedAt = 4000, date_updatedAt = 4001\<rparr>"

definition payload_alice :: json where
  "payload_alice = JObj [(''email'', JStr ''a@x.com''), (''username'', JStr ''alice'')]"

definition payload_promotion :: json where
  "payload_promotion =
     JObj [(''code'', JStr ''SPRING''), (''name'', JStr ''Spring sale''),
           (''discountType'', JStr ''percentage''), (''discountValue'', JStr ''15.5''),
           (''startDate'', JStr ''2024-01-01''), (''endDate'', JStr ''2024-12-31'')]"

definition payload_promotion_over :: json where
  "payload_promotion_over =
     JObj [(''code'', JStr ''SPRING''), (''name'', JStr ''Spring sale''),
           (''discountType'', JStr ''percentage''), (''discountValue'', JStr ''100.01''),
           (''startDate'', JStr ''2024-01-01''), (''endDate'', JStr ''2024-12-31'')]"

definition payload_promotion_backwards :: json where
  "payload_promotion_backwards =
     JObj [(''code'', JStr ''SPRING''), (''name'', JStr ''Spring sale''),
           (''discountType'', JStr ''fixed''), (''discountValue'', JStr ''5''),
           (''startDate'', JStr ''2024-12-31''), (''endDate'', JStr ''2024-01-01'')]"

definition action1 :: workflow_action where
  "action1 = \<lparr>wa_id = ''wa-1'', wa_actionType = ''create_user'', wa_status = PENDING,
              wa_payload = payload_alice, wa_makerId = ''m1'', wa_checkerId = None,
              wa_reviewComment = None, wa_reviewedAt = None, wa_createdAt = 1000,
              wa_updatedAt = 1000\<rparr>"

definition action2 :: workflow_action where
  "action2 = \<lparr>wa_id = ''wa-2'', wa_actionType = ''create_user'', wa_status = PENDING,
              wa_payload = payload_alice, wa_makerId = ''m1'', wa_checkerId = None,
              wa_reviewComment = None, wa_reviewedAt = None, wa_createdAt = 2000,
              wa_updatedAt = 2000\<rparr>"

definition user_alice :: user where
  "user_alice = \<lparr>u_id = ''u-1'', u_email = ''a@x.com'', u_username = ''alice'',
                 u_password = default_password_hash, u_fullName = None, u_role = ''MAKER'',
                 u_isActive = True, u_createdAt = 3000, u_updatedAt = 3000\<rparr>"

definition db_one_pending :: database where
  "db_one_pending = fst (createAction sample_handlers env1 empty_db ''create_user'' payload_alice ''m1'')"

definition db_two_pending :: database where
  "db_two_pending =
     fst (createAction sample_handlers env2 db_one_pending ''create_user'' payload_alice ''m1'')"

definition db_first_approved :: database where
  "db_first_approved = fst (reviewAction sample_handlers env3 db_two_pending ''wa-1'' ''c1'' APPROVED None)"

text \<open>Two checkers deciding \<^verbatim>\<open>wa-1\<close>, one approving and one rejecting.\<close>

definition call_approve :: review_call where
  "call_approve = \<lparr>rc_env = env3, rc_actionId = ''wa-1'', rc_checkerId = ''c1'',
                   rc_status = APPROVED, rc_reviewComment = None\<rparr>"

definition call_reject :: review_call where
  "call_reject = \<lparr>rc_env = env4, rc_actionId = ''wa-1'', rc_checkerId = ''c2'',
                  rc_status = REJECTED, rc_reviewComment = Some ''duplicate''\<rparr>"

definition action1_approved :: workflow_action where
  "action1_approved = action1\<lparr>wa_status := APPROVED, wa_checkerId := Some ''c1'',
                              wa_reviewedAt := Some 3000, wa_updatedAt := 3001\<rparr>"

definition action2_approved :: workflow_action where
  "action2_approved = action2\<lparr>wa_status := APPROVED, wa_checkerId := Some ''c1'',
                              wa_reviewedAt := Some 4000, wa_updatedAt := 4001\<rparr>"

definition action1_rejected :: workflow_action where
  "action1_rejected = action1\<lparr>wa_status := REJECTED, wa_checkerId := Some ''c1'',
                              wa_reviewedAt := Some 3000, wa_updatedAt := 3001\<rparr>"

definition action1_rejected_late :: workflow_action where
  "action1_rejected_late = action1\<lparr>wa_status := REJECTED, wa_checkerId := Some ''c2'',
                                   wa_reviewComment := Some ''duplicate'',
                                   wa_reviewedAt := Some 4000, wa_updatedAt := 4001\<rparr>"

text \<open>The row that \<^verbatim>\<open>createAction\<close> inserts, for stating what it returns.\<close>

definition inserted_action :: "env \<Rightarrow> string \<Rightarrow> json \<Rightarrow> string \<Rightarrow> workflow_action" where
  "inserted_action e actionType payload makerId =
     \<lparr>wa_id = random_uuid e, wa_actionType = actionType, wa_status = PENDING,
      wa_payload = payload, wa_makerId = makerId, wa_checkerId = None,
      wa_reviewComment = None, wa_reviewedAt = None, wa_createdAt = db_now e,
      wa_updatedAt = db_now e\<rparr>"

text \<open>The columns of an action that a review does not write.\<close>

definition same_identity :: "workflow_action \<Rightarrow> workflow_action \<Rightarrow> bool" where
  "same_identity a a' =
     (wa_id a' = wa_id a \<and> wa_actionType a' = wa_actionType a \<and> wa_payload a' = wa_payload a \<and>
      wa_makerId a' = wa_makerId a \<and> wa_createdAt a' = wa_createdAt a)"

section \<open>The handler registry\<close>

lemma get_property_registerHandler:
  "get_property (registerHandler reg t h) t = Some (HandlerObject h)"
proof (cases "map_of (own_handlers reg) t = None \<and> t = ''__proto__''")
  case True
  then have "map_of (own_handlers reg) ''__proto__'' = None" and "t = ''__proto__''" by auto
  then show ?thesis by (simp add: registerHandler_def get_property_def)
next
  case False
  then show ?thesis by (simp add: registerHandler_def get_property_def update_conv')
qed

lemma getHandler_registerHandler:
  "getHandler (registerHandler reg t h) t = Inr (HandlerObject h)"
  by (simp add: getHandler_def get_property_registerHandler)

lemma set_getAllActionTypes: "set (getAllActionTypes reg) = fst ` set (own_handlers reg)"
  by (auto simp: getAllActionTypes_def Let_def)

lemma types_registerHandler:
  assumes "t \<noteq> ''__proto__''"
  shows "t \<in> set (getAllActionTypes (registerHandler reg t h))"
  using assms by (simp add: set_getAllActionTypes registerHandler_def dom_update)

lemma types_registerHandler_proto:
  assumes "map_of (own_handlers reg) ''__proto__'' = None"
  shows "getAllActionTypes (registerHandler reg ''__proto__'' h) = getAllActionTypes reg"
  using assms by (simp add: registerHandler_def getAllActionTypes_def)

lemma createAction_registerHandler:
  "createAction (registerHandler reg t h) e db t payload makerId =
     (case validate h payload of
        Inl err \<Rightarrow> (db, Inl err)
      | Inr ok \<Rightarrow>
          (db\<lparr>workflowActions := workflowActions db @ [inserted_action e t payload makerId]\<rparr>,
           Inr (inserted_action e t payload makerId)))"
  by (simp add: createAction_def getHandler_registerHandler inserted_action_def Let_def
      split: sum.splits)

lemma review_execute_registerHandler:
  "review_execute (registerHandler reg t h) e db (a\<lparr>wa_actionType := t\<rparr>) u APPROVED =
     (case execute h e db (wa_payload a) of
        (db', Inl err) \<Rightarrow> (db', Inl err)
      | (db', Inr result) \<Rightarrow>
          (db', Inr \<lparr>rr_action = u, rr_executionResult = Some result\<rparr>))"
  by (simp add: review_execute_def getHandler_registerHandler)

text \<open>
  C10 at the name \<^verbatim>\<open>__proto__\<close>: "after \<^verbatim>\<open>registerHandler(t, h)\<close>,
  \<^verbatim>\<open>getHandler(t)\<close> returns \<open>h\<close> and \<^verbatim>\<open>getAllActionTypes()\<close> includes \<open>t\<close>".
  The assignment \<^verbatim>\<open>this.handlers['__proto__'] = h\<close> replaces the prototype of the
  object and adds no own property: \<^verbatim>\<open>getHandler('__proto__')\<close> returns the handler,
  but \<^verbatim>\<open>getAllActionTypes()\<close> is the three types it was before and does not list it.
\<close>

theorem registerHandler_proto_not_listed:
  "getHandler (registerHandler sample_handlers ''__proto__'' (CreateUserHandler sample_runtime))
     ''__proto__'' = Inr (HandlerObject (CreateUserHandler sample_runtime)) \<and>
   getAllActionTypes
     (registerHandler sample_handlers ''__proto__'' (CreateUserHandler sample_runtime)) =
     [''create_user'', ''create_account'', ''create_promotion''] \<and>
   ''__proto__'' \<notin> set [''create_user'', ''create_account'', ''create_promotion'']"
  by (simp add: getHandler_def get_property_def registerHandler_def getAllActionTypes_def
      sample_handlers_def initial_handlers_def is_array_index_def is_digit_def)

section \<open>What the handlers leave alone\<close>

lemma CreateUserHandler_execute_actions:
  "workflowActions (fst (CreateUserHandler_execute e db p)) = workflowActions db"
  by (simp add: CreateUserHandler_execute_def Let_def split: option.splits)

lemma CreateAccountHandler_execute_actions:
  "workflowActions (fst (CreateAccountHandler_execute e db p)) = workflowActions db"
  by (simp add: CreateAccountHandler_execute_def Let_def split: option.splits)

lemma CreatePromotionHandler_execute_actions:
  "workflowActions (fst (CreatePromotionHandler_execute rt e db p)) = workflowActions db"
  by (simp add: CreatePromotionHandler_execute_def Let_def split: option.splits)

lemma getHandler_initial_handlers:
  assumes "getHandler (initial_handlers rt) t = Inr (HandlerObject h)"
  shows "h = CreateUserHandler rt \<or> h = CreateAccountHandler rt \<or> h = CreatePromotionHandler rt"
  using assms
  by (auto simp: getHandler_def get_property_def initial_handlers_def split: if_splits)

lemma initial_handlers_keep_actions: "keeps_actions (initial_handlers rt)"
  unfolding keeps_actions_def
proof (intro allI impI)
  fix t h e db p
  assume "getHandler (initial_handlers rt) t = Inr (HandlerObject h)"
  from getHandler_initial_handlers[OF this]
  show "workflowActions (fst (execute h e db p)) = workflowActions db"
    by (auto simp: CreateUserHandler_def CreateAccountHandler_def CreatePromotionHandler_def
        CreateUserHandler_execute_actions CreateAccountHandler_execute_actions
        CreatePromotionHandler_execute_actions split: option.splits)
qed

lemma sample_handlers_keep_actions: "keeps_actions sample_handlers"
  by (simp add: sample_handlers_def initial_handlers_keep_actions)

section \<open>Reading and writing \<^verbatim>\<open>workflow_actions\<close>\<close>

lemma wa_id_set_review: "wa_id (set_review e c st cm a) = wa_id a"
  by (simp add: set_review_def)

lemma find_map_update:
  assumes "\<And>a. wa_id (f a) = wa_id a"
  shows "find (\<lambda>a. wa_id a = k') (map (\<lambda>a. if wa_id a = k then f a else a) rows) =
         map_option (\<lambda>a. if wa_id a = k then f a else a) (find (\<lambda>a. wa_id a = k') rows)"
  using assms by (induction rows) auto

lemma getActionById_cong:
  "workflowActions db' = workflowActions db \<Longrightarrow> getActionById db' k = getActionById db k"
  by (simp add: getActionById_def)

lemma getActionById_review_update:
  "getActionById (fst (review_update e db k c st cm)) k' =
     (case getActionById db k' of
        Inl err \<Rightarrow> Inl err
      | Inr a \<Rightarrow> Inr (if k' = k then set_review e c st cm a else a))"
proof -
  have "find (\<lambda>a. wa_id a = k')
          (map (\<lambda>a. if wa_id a = k then set_review e c st cm a else a) (workflowActions db)) =
        map_option (\<lambda>a. if wa_id a = k then set_review e c st cm a else a)
          (find (\<lambda>a. wa_id a = k') (workflowActions db))"
    by (rule find_map_update) (rule wa_id_set_review)
  then show ?thesis
    by (auto simp: review_update_def getActionById_def Let_def split: option.splits
        dest: find_Some_iff[THEN iffD1])
qed

lemma snd_review_update:
  "snd (review_update e db k c st cm) =
     (case getActionById db k of Inl err \<Rightarrow> None | Inr a \<Rightarrow> Some (set_review e c st cm a))"
proof -
  have "find (\<lambda>a. wa_id a = k)
          (map (\<lambda>a. if wa_id a = k then set_review e c st cm a else a) (workflowActions db)) =
        map_option (\<lambda>a. if wa_id a = k then set_review e c st cm a else a)
          (find (\<lambda>a. wa_id a = k) (workflowActions db))"
    by (rule find_map_update) (rule wa_id_set_review)
  then show ?thesis
    by (auto simp: review_update_def getActionById_def Let_def split: option.splits
        dest: find_Some_iff[THEN iffD1])
qed

lemma review_update_other_tables:
  "users (fst (review_update e db k c st cm)) = users db \<and>
   accounts (fst (review_update e db k c st cm)) = accounts db \<and>
   promotions (fst (review_update e db k c st cm)) = promotions db"
  by (simp add: review_update_def Let_def)

lemma review_check_Inr:
  "review_check db k c = Inr a \<longleftrightarrow>
     getActionById db k = Inr a \<and> wa_status a = PENDING \<and> wa_makerId a \<noteq> c"
  by (auto simp: review_check_def split: sum.splits)

lemma keeps_actionsD:
  assumes "keeps_actions hs" and "getHandler hs t = Inr (HandlerObject h)"
    and "execute h e db p = (db', r)"
  shows "workflowActions db' = workflowActions db"
proof -
  from assms(1,2) have "workflowActions (fst (execute h e db p)) = workflowActions db"
    unfolding keeps_actions_def by blast
  with assms(3) show ?thesis by simp
qed

lemma review_execute_actions:
  assumes "keeps_actions hs"
  shows "workflowActions (fst (review_execute hs e db a u st)) = workflowActions db"
proof (cases "st = APPROVED")
  case False
  then show ?thesis by (simp add: review_execute_def)
next
  case True
  show ?thesis
  proof (cases "getHandler hs (wa_actionType a)")
    case (Inl err)
    with True show ?thesis by (simp add: review_execute_def)
  next
    case (Inr v)
    show ?thesis
    proof (cases v)
      case OtherValue
      with True Inr show ?thesis by (simp add: review_execute_def)
    next
      case (HandlerObject h)
      obtain db' r where ex: "execute h e db (wa_payload a) = (db', r)"
        by (cases "execute h e db (wa_payload a)")
      from Inr HandlerObject have "getHandler hs (wa_actionType a) = Inr (HandlerObject h)"
        by simp
      from keeps_actionsD[OF assms this ex] have "workflowActions db' = workflowActions db" .
      with True Inr HandlerObject ex show ?thesis
        by (simp add: review_execute_def split: sum.splits)
    qed
  qed
qed

lemma reviewAction_actions:
  assumes "keeps_actions hs"
  shows "workflowActions (fst (reviewAction hs e db k c st cm)) =
     (case review_check db k c of
        Inl err \<Rightarrow> workflowActions db
      | Inr a \<Rightarrow> workflowActions (fst (review_update e db k c st cm)))"
  by (simp add: reviewAction_def review_execute_actions[OF assms] split: sum.splits prod.splits)

lemma getActionById_reviewAction:
  assumes "keeps_actions hs"
  shows "getActionById (fst (reviewAction hs e db k c st cm)) k' =
     (case review_check db k c of
        Inl err \<Rightarrow> getActionById db k'
      | Inr a0 \<Rightarrow>
         (case getActionById db k' of
            Inl err \<Rightarrow> Inl err
          | Inr a \<Rightarrow> Inr (if k' = k then set_review e c st cm a else a)))"
proof (cases "review_check db k c")
  case (Inl err)
  then show ?thesis by (simp add: reviewAction_def)
next
  case (Inr a0)
  have "workflowActions (fst (reviewAction hs e db k c st cm)) =
        workflowActions (fst (review_update e db k c st cm))"
    using reviewAction_actions[OF assms, of e db k c st cm] Inr by simp
  then have "getActionById (fst (reviewAction hs e db k c st cm)) k' =
             getActionById (fst (review_update e db k c st cm)) k'"
    by (rule getActionById_cong)
  with Inr show ?thesis by (simp add: getActionById_review_update)
qed

lemma reviewAction_not_pending:
  assumes "getActionById db k = Inr a" and "wa_status a \<noteq> PENDING"
  shows "reviewAction hs e db k c st cm = (db, Inl (AlreadyDecidedError (wa_status a)))"
  using assms by (simp add: reviewAction_def review_check_def)

lemma reviewAction_status_step:
  assumes "keeps_actions hs" and "getActionById db k' = Inr a"
  shows "\<exists>a'. getActionById (fst (reviewAction hs e db k c st cm)) k' = Inr a' \<and>
              (wa_status a' = wa_status a \<or>
               (wa_status a = PENDING \<and> (wa_status a' = APPROVED \<or> wa_status a' = REJECTED)))"
proof (cases "review_check db k c")
  case (Inl err)
  with assms show ?thesis by (simp add: getActionById_reviewAction)
next
  case (Inr a0)
  then have chk: "getActionById db k = Inr a0" "wa_status a0 = PENDING"
    by (simp_all add: review_check_Inr)
  show ?thesis
  proof (cases "k' = k")
    case False
    with assms Inr show ?thesis by (simp add: getActionById_reviewAction)
  next
    case True
    with assms chk have "a = a0" by simp
    with True assms Inr chk show ?thesis
      by (cases st) (simp_all add: getActionById_reviewAction set_review_def)
  qed
qed

section \<open>The sample history\<close>

lemmas handler_defs =
  sample_handlers_def initial_handlers_def getHandler_def get_property_def
  CreateUserHandler_def CreateUserHandler_validate_def createUserSchema_def
  as_CreateUserPayload_def CreateUserHandler_execute_def sample_runtime_def Let_def

lemma db_one_pending_eq:
  "db_one_pending = \<lparr>workflowActions = [action1], users = [], accounts = [], promotions = []\<rparr>"
  by (simp add: db_one_pending_def createAction_def handler_defs payload_alice_def env1_def
      empty_db_def action1_def)

lemma db_two_pending_eq:
  "db_two_pending =
     \<lparr>workflowActions = [action1, action2], users = [], accounts = [], promotions = []\<rparr>"
  by (simp add: db_two_pending_def db_one_pending_eq createAction_def handler_defs
      payload_alice_def env2_def action2_def)

lemma db_first_approved_eq:
  "db_first_approved =
     \<lparr>workflowActions = [action1_approved, action2], users = [user_alice], accounts = [],
      promotions = []\<rparr>"
  by (simp add: db_first_approved_def db_two_pending_eq reviewAction_def review_check_def
      getActionById_def review_update_def set_review_def review_execute_def handler_defs
      payload_alice_def env3_def action1_def action2_def action1_approved_def user_alice_def)

lemma second_approval:
  "reviewAction sample_handlers env4 db_first_approved ''wa-2'' ''c1'' APPROVED None =
     (\<lparr>workflowActions =
          [action1_approved,
           action2_approved],
        users = [user_alice], accounts = [], promotions = []\<rparr>,
      Inl (ExecutionError ''User with email a@x.com already exists''))"
  by (simp add: db_first_approved_eq reviewAction_def review_check_def
      getActionById_def review_update_def set_review_def review_execute_def handler_defs
      payload_alice_def env4_def action1_def action2_def action1_approved_def action2_approved_def
      user_alice_def)

section \<open>Submission\<close>

lemma createAction_unknown:
  "get_property hs t = None \<Longrightarrow>
   createAction hs e db t p m = (db, Inl (UnknownActionTypeError t))"
  by (simp add: createAction_def getHandler_def)

lemma createAction_not_a_handler:
  "get_property hs t = Some OtherValue \<Longrightarrow>
   createAction hs e db t p m = (db, Inl (TypeError ''handler.validate is not a function''))"
  by (simp add: createAction_def getHandler_def)

lemma createAction_invalid:
  "get_property hs t = Some (HandlerObject h) \<Longrightarrow> validate h p = Inl err \<Longrightarrow>
   createAction hs e db t p m = (db, Inl err)"
  by (simp add: createAction_def getHandler_def)

lemma createAction_valid:
  "get_property hs t = Some (HandlerObject h) \<Longrightarrow> validate h p = Inr u \<Longrightarrow>
   createAction hs e db t p m =
     (db\<lparr>workflowActions := workflowActions db @ [inserted_action e t p m]\<rparr>,
      Inr (inserted_action e t p m))"
  by (simp add: createAction_def getHandler_def Let_def inserted_action_def)

lemma createAction_other_tables:
  "users (fst (createAction hs e db t p m)) = users db \<and>
   accounts (fst (createAction hs e db t p m)) = accounts db \<and>
   promotions (fst (createAction hs e db t p m)) = promotions db"
  by (simp add: createAction_def Let_def split: sum.splits property.splits)

lemma find_snoc:
  "find P (xs @ [x]) = (case find P xs of Some y \<Rightarrow> Some y | None \<Rightarrow> if P x then Some x else None)"
  by (induction xs) auto

lemma getActionById_createAction:
  assumes "getActionById db k = Inr a"
  shows "getActionById (fst (createAction hs e db t p m)) k = Inr a"
  using assms
  by (auto simp: createAction_def getActionById_def Let_def find_snoc
      split: sum.splits option.splits property.splits)

lemma createAction_created:
  assumes "createAction hs e db t p m = (db1, Inr a0)"
  shows "wa_status a0 = PENDING \<and> wa_payload a0 = p \<and> a0 \<in> set (workflowActions db1)"
  using assms by (auto simp: createAction_def Let_def split: sum.splits property.splits)

lemma initial_handlers_validate_error:
  assumes "getHandler (initial_handlers rt) t = Inr (HandlerObject h)"
    and "validate h p = Inl err"
  shows "\<exists>msg. err = ValidationError msg"
  using getHandler_initial_handlers[OF assms(1)] assms(2)
  by (auto simp: CreateUserHandler_def CreateAccountHandler_def
      CreatePromotionHandler_def CreateUserHandler_validate_def CreateAccountHandler_validate_def
      CreatePromotionHandler_validate_def Let_def split: if_splits option.splits)

text \<open>
  C6 at an action type that names a member of \<^verbatim>\<open>Object.prototype\<close>: "if no handler
  is registered for the action type, \<^verbatim>\<open>createAction\<close> fails with the
  unknown-action-type error". No handler is registered for \<^verbatim>\<open>constructor\<close>, but
  \<^verbatim>\<open>this.handlers['constructor']\<close> reads the inherited function, which is not falsy,
  so \<^verbatim>\<open>getHandler\<close> returns it and the call fails on \<^verbatim>\<open>handler.validate\<close> with a
  type error instead. Nothing is stored.
\<close>

theorem createAction_inherited_name:
  "map_of (own_handlers sample_handlers) ''constructor'' = None \<and>
   getHandler sample_handlers ''constructor'' = Inr OtherValue \<and>
   createAction sample_handlers env1 empty_db ''constructor'' payload_alice ''m1'' =
     (empty_db, Inl (TypeError ''handler.validate is not a function'')) \<and>
   TypeError ''handler.validate is not a function'' \<noteq> UnknownActionTypeError ''constructor''"
  by (simp add: createAction_def getHandler_def get_property_def sample_handlers_def
      initial_handlers_def inherited_names_def object_prototype_names_def)

section \<open>The status of an action\<close>

text \<open>
  When service calls run one after another, a call leaves the status of every stored
  action as it was or takes it from \<open>PENDING\<close> to a decided status, and a decided
  action keeps its status over any sequence of calls.
\<close>

lemma createAction_status_step:
  assumes "getActionById db k' = Inr a"
  shows "\<exists>a'. getActionById (fst (createAction hs e db t p m)) k' = Inr a' \<and>
              wa_status a' = wa_status a"
  using getActionById_createAction[OF assms] by simp

lemma run_requests_terminal:
  assumes "keeps_actions hs"
  shows "getActionById db k' = Inr a \<Longrightarrow> wa_status a \<noteq> PENDING \<Longrightarrow>
         \<exists>a'. getActionById (run_requests hs db rs) k' = Inr a' \<and> wa_status a' = wa_status a"
proof (induction rs arbitrary: db a)
  case Nil
  then show ?case by (simp add: run_requests_def)
next
  case (Cons r rs)
  have "\<exists>a1. getActionById (apply_request hs db r) k' = Inr a1 \<and> wa_status a1 = wa_status a"
  proof (cases r)
    case (Create e t p m)
    with Cons.prems(1) show ?thesis
      using createAction_status_step[of db k' a hs e t p m] by simp
  next
    case (Review e k c st cm)
    from reviewAction_status_step[OF assms Cons.prems(1), of e k c st cm] Cons.prems(2) Review
    show ?thesis by auto
  qed
  then obtain a1 where a1: "getActionById (apply_request hs db r) k' = Inr a1"
    "wa_status a1 = wa_status a" by blast
  from Cons.IH[OF a1(1)] a1(2) Cons.prems(2)
  show ?case by (simp add: run_requests_def)
qed

lemma lookup_first_approved:
  "getActionById db_first_approved ''wa-1'' = Inr action1_approved"
  by (simp add: db_first_approved_eq getActionById_def action1_approved_def action1_def)

lemma lookup_one_pending: "getActionById db_one_pending ''wa-1'' = Inr action1"
  by (simp add: db_one_pending_eq getActionById_def action1_def)

lemmas schedule_defs =
  db_one_pending_eq call_approve_def call_reject_def review_check_def getActionById_def
  review_update_def set_review_def review_execute_def handler_defs payload_alice_def env3_def
  env4_def action1_def action1_approved_def action1_rejected_late_def user_alice_def

text \<open>
  C4 when two calls overlap: "status transitions at most once and a terminal status is
  never changed". Checker \<^verbatim>\<open>c1\<close> approves and checker \<^verbatim>\<open>c2\<close> rejects the pending
  action \<^verbatim>\<open>wa-1\<close>, and both pass the status guard before either writes. The update
  has no condition on the status: after the approval has finished the stored action is
  \<open>APPROVED\<close>, and the next step, the reject's update, makes it \<open>REJECTED\<close>.
\<close>

theorem terminal_status_overwritten:
  "getActionById db_one_pending ''wa-1'' = Inr action1 \<and> wa_status action1 = PENDING \<and>
   getActionById
     (fst (run_schedule sample_handlers [call_approve, call_reject] [0, 1, 0, 0]
             (db_one_pending, [Start, Start]))) ''wa-1'' = Inr action1_approved \<and>
   wa_status action1_approved = APPROVED \<and>
   getActionById
     (fst (run_schedule sample_handlers [call_approve, call_reject] [0, 1, 0, 0, 1]
             (db_one_pending, [Start, Start]))) ''wa-1'' = Inr action1_rejected_late \<and>
   wa_status action1_rejected_late = REJECTED"
  by (simp add: schedule_defs)

section \<open>The maker is not the checker\<close>

text \<open>
  C5, as stated, fails: "every \<^verbatim>\<open>reviewAction\<close> call whose checker is the action's
  maker fails with the self-review error". The status guard comes before the maker
  guard, so on the approved action \<^verbatim>\<open>wa-1\<close> of the sample history the maker
  \<^verbatim>\<open>m1\<close> is answered with the already-decided error.
\<close>

theorem self_review_counterexample:
  "getActionById db_first_approved ''wa-1'' = Inr action1_approved \<and>
   wa_makerId action1_approved = ''m1'' \<and>
   reviewAction sample_handlers env4 db_first_approved ''wa-1'' ''m1'' APPROVED None =
     (db_first_approved, Inl (AlreadyDecidedError APPROVED)) \<and>
   AlreadyDecidedError APPROVED \<noteq> SelfReviewError"
  by (simp add: lookup_first_approved reviewAction_def review_check_def action1_approved_def
      action1_def)

text \<open>
  C5, amended. When the checker is the maker of the action, \<^verbatim>\<open>reviewAction\<close> fails
  and the database is unchanged: with the self-review error when the action is
  \<open>PENDING\<close>, with the already-decided error otherwise.
\<close>

theorem self_review_refused:
  assumes "getActionById db k = Inr a" and "wa_makerId a = c"
  shows "reviewAction hs e db k c st cm =
           (db, Inl (if wa_status a = PENDING then SelfReviewError
                     else AlreadyDecidedError (wa_status a)))"
  using assms by (simp add: reviewAction_def review_check_def)

theorem self_review_refused_witness:
  "getActionById db_one_pending ''wa-1'' = Inr action1 \<and> wa_makerId action1 = ''m1'' \<and>
   reviewAction sample_handlers env3 db_one_pending ''wa-1'' ''m1'' APPROVED None =
     (db_one_pending, Inl SelfReviewError)"
proof -
  have m: "wa_makerId action1 = ''m1''" and st: "wa_status action1 = PENDING"
    by (simp_all add: action1_def)
  from self_review_refused[OF lookup_one_pending m, of sample_handlers env3 APPROVED None] st
  have "reviewAction sample_handlers env3 db_one_pending ''wa-1'' ''m1'' APPROVED None =
     (db_one_pending, Inl SelfReviewError)" by simp
  with lookup_one_pending m show ?thesis by simp
qed

section \<open>Rejecting\<close>

lemma reviewAction_reject:
  assumes "getActionById db k = Inr a" and "wa_status a = PENDING" and "wa_makerId a \<noteq> c"
  shows "reviewAction hs e db k c REJECTED cm =
           (fst (review_update e db k c REJECTED cm),
            Inr \<lparr>rr_action = Some (set_review e c REJECTED cm a), rr_executionResult = None\<rparr>)"
proof -
  from assms have chk: "review_check db k c = Inr a" by (simp add: review_check_Inr)
  have "snd (review_update e db k c REJECTED cm) = Some (set_review e c REJECTED cm a)"
    using assms(1) by (simp add: snd_review_update)
  with chk show ?thesis
    by (cases "review_update e db k c REJECTED cm") (simp add: reviewAction_def review_execute_def)
qed

lemma reviewAction_reject_stored:
  assumes "getActionById db k = Inr a" and "wa_status a = PENDING" and "wa_makerId a \<noteq> c"
  shows "\<exists>db' a'. reviewAction hs e db k c REJECTED cm =
             (db', Inr \<lparr>rr_action = Some a', rr_executionResult = None\<rparr>) \<and>
           getActionById db' k = Inr a' \<and> wa_status a' = REJECTED \<and>
           wa_checkerId a' = Some c \<and> wa_payload a' = wa_payload a \<and>
           wa_reviewComment a' = (case cm of None \<Rightarrow> wa_reviewComment a | Some t \<Rightarrow> Some t) \<and>
           users db' = users db \<and> accounts db' = accounts db \<and> promotions db' = promotions db"
proof -
  let ?db' = "fst (review_update e db k c REJECTED cm)"
  let ?a' = "set_review e c REJECTED cm a"
  have r: "reviewAction hs e db k c REJECTED cm =
             (?db', Inr \<lparr>rr_action = Some ?a', rr_executionResult = None\<rparr>)"
    by (rule reviewAction_reject[OF assms])
  have l: "getActionById ?db' k = Inr ?a'"
    using assms(1) by (simp add: getActionById_review_update)
  have f: "wa_status ?a' = REJECTED" "wa_checkerId ?a' = Some c" "wa_payload ?a' = wa_payload a"
    "wa_reviewComment ?a' = (case cm of None \<Rightarrow> wa_reviewComment a | Some t \<Rightarrow> Some t)"
    by (simp_all add: set_review_def)
  from r l f review_update_other_tables[of e db k c REJECTED cm] show ?thesis by blast
qed

text \<open>
  C3 at a reject that carries no comment: "the call fails with a validation error and
  the action is not rejected". Neither the controller's schema nor the service looks at
  the comment. A request without \<^verbatim>\<open>reviewComment\<close>, and one whose
  \<^verbatim>\<open>reviewComment\<close> is the empty string, are both served and leave the pending action
  \<^verbatim>\<open>wa-1\<close> rejected, the first with no comment stored and the second with the empty
  one.
\<close>

theorem reject_without_comment_served:
  "controller_reviewAction sample_handlers env3 db_one_pending ''wa-1''
     (JObj [(''status'', JStr ''rejected''), (''checkerId'', JStr ''c1'')]) =
     (\<lparr>workflowActions = [action1_rejected], users = [], accounts = [], promotions = []\<rparr>,
      Served (Inr \<lparr>rr_action = Some action1_rejected, rr_executionResult = None\<rparr>)) \<and>
   wa_status action1_rejected = REJECTED \<and> wa_reviewComment action1_rejected = None \<and>
   controller_reviewAction sample_handlers env3 db_one_pending ''wa-1''
     (JObj [(''status'', JStr ''rejected''), (''checkerId'', JStr ''c1''),
            (''reviewComment'', JStr '''')]) =
     (\<lparr>workflowActions = [action1_rejected\<lparr>wa_reviewComment := Some ''''\<rparr>], users = [],
        accounts = [], promotions = []\<rparr>,
      Served (Inr \<lparr>rr_action = Some (action1_rejected\<lparr>wa_reviewComment := Some ''''\<rparr>),
                  rr_executionResult = None\<rparr>))"
  by (simp add: controller_reviewAction_def reviewActionSchema_def db_one_pending_eq
      reviewAction_def review_check_def getActionById_def review_update_def set_review_def
      review_execute_def env3_def action1_def action1_rejected_def Let_def)

section \<open>What a review writes\<close>

lemma same_identity_set_review: "same_identity a (set_review e c st cm a)"
  by (simp add: same_identity_def set_review_def)

lemma review_update_frame:
  "list_all2 (\<lambda>a a'. same_identity a a' \<and> (wa_id a \<noteq> k \<longrightarrow> a' = a))
     (workflowActions db) (workflowActions (fst (review_update e db k c st cm)))"
  by (simp add: review_update_def Let_def list_all2_map2 list_all2_same same_identity_def
      set_review_def)

lemma reviewAction_success:
  assumes "reviewAction hs e db k c st cm = (db', Inr res)"
  shows "\<exists>a. review_check db k c = Inr a \<and>
             review_execute hs e (fst (review_update e db k c st cm)) a
               (snd (review_update e db k c st cm)) st = (db', Inr res)"
  using assms by (auto simp: reviewAction_def split: sum.splits prod.splits)

lemma review_execute_approved:
  assumes "review_execute hs e db1 a u APPROVED = (db', Inr res)"
  shows "\<exists>h r. getHandler hs (wa_actionType a) = Inr (HandlerObject h) \<and>
               execute h e db1 (wa_payload a) = (db', Inr r) \<and>
               res = \<lparr>rr_action = u, rr_executionResult = Some r\<rparr>"
  using assms
  by (auto simp: review_execute_def split: sum.splits prod.splits property.splits)

lemma review_execute_not_approved:
  assumes "st \<noteq> APPROVED"
  shows "review_execute hs e db1 a u st = (db1, Inr \<lparr>rr_action = u, rr_executionResult = None\<rparr>)"
  using assms by (simp add: review_execute_def)

text \<open>
  C7. After a successful \<^verbatim>\<open>reviewAction\<close> every stored action has the id, type,
  payload, maker and creation time it had, and the actions with another id are
  untouched; the reviewed action is the old one with status, checker, comment,
  \<^verbatim>\<open>reviewedAt\<close> and \<^verbatim>\<open>updatedAt\<close> set, and it is the action returned. On
  approval the handler registered for the action's type ran once, on the database as
  the update left it, with the payload stored in the action; that payload is the one
  \<^verbatim>\<open>createAction\<close> was given. Otherwise no handler ran and the other tables are
  unchanged. The registered handlers do not write to \<^verbatim>\<open>workflow_actions\<close>.
\<close>

theorem reviewAction_frame:
  assumes "keeps_actions hs" and "reviewAction hs e db k c st cm = (db', Inr res)"
  shows "list_all2 (\<lambda>a a'. same_identity a a' \<and> (wa_id a \<noteq> k \<longrightarrow> a' = a))
           (workflowActions db) (workflowActions db') \<and>
         (\<exists>a. getActionById db k = Inr a \<and>
              getActionById db' k = Inr (set_review e c st cm a) \<and>
              rr_action res = Some (set_review e c st cm a) \<and>
              (st = APPROVED \<longrightarrow>
                 (\<exists>h r. getHandler hs (wa_actionType a) = Inr (HandlerObject h) \<and>
                        execute h e (fst (review_update e db k c st cm)) (wa_payload a) =
                          (db', Inr r) \<and>
                        rr_executionResult res = Some r)) \<and>
              (st \<noteq> APPROVED \<longrightarrow> rr_executionResult res = None \<and>
                 users db' = users db \<and> accounts db' = accounts db \<and>
                 promotions db' = promotions db)) \<and>
         (\<forall>hs0 e0 db0 t p m db1 a0.
            createAction hs0 e0 db0 t p m = (db1, Inr a0) \<longrightarrow>
              wa_payload a0 = p \<and> a0 \<in> set (workflowActions db1))"
proof -
  let ?db1 = "fst (review_update e db k c st cm)"
  let ?u = "snd (review_update e db k c st cm)"
  from reviewAction_success[OF assms(2)] obtain a where
    chk: "review_check db k c = Inr a" and
    ex: "review_execute hs e ?db1 a ?u st = (db', Inr res)" by blast
  from chk have look: "getActionById db k = Inr a" by (simp add: review_check_Inr)
  have acts: "workflowActions db' = workflowActions ?db1"
    using review_execute_actions[OF assms(1), of e ?db1 a ?u st] ex by simp
  have frame: "list_all2 (\<lambda>a a'. same_identity a a' \<and> (wa_id a \<noteq> k \<longrightarrow> a' = a))
           (workflowActions db) (workflowActions db')"
    unfolding acts by (rule review_update_frame)
  have look': "getActionById db' k = Inr (set_review e c st cm a)"
    using getActionById_cong[OF acts, of k] look by (simp add: getActionById_review_update)
  have u: "?u = Some (set_review e c st cm a)"
    using look by (simp add: snd_review_update)
  have res_action: "rr_action res = Some (set_review e c st cm a)"
  proof (cases "st = APPROVED")
    case True
    with ex review_execute_approved[of hs e ?db1 a ?u db' res] u show ?thesis by auto
  next
    case False
    with ex review_execute_not_approved[of st hs e ?db1 a ?u] u show ?thesis by auto
  qed
  have appr: "st = APPROVED \<longrightarrow>
                 (\<exists>h r. getHandler hs (wa_actionType a) = Inr (HandlerObject h) \<and>
                        execute h e ?db1 (wa_payload a) = (db', Inr r) \<and>
                        rr_executionResult res = Some r)"
  proof
    assume "st = APPROVED"
    with ex review_execute_approved[of hs e ?db1 a ?u db' res]
    show "\<exists>h r. getHandler hs (wa_actionType a) = Inr (HandlerObject h) \<and>
                execute h e ?db1 (wa_payload a) = (db', Inr r) \<and>
                rr_executionResult res = Some r" by auto
  qed
  have nappr: "st \<noteq> APPROVED \<longrightarrow> rr_executionResult res = None \<and>
                 users db' = users db \<and> accounts db' = accounts db \<and>
                 promotions db' = promotions db"
  proof
    assume "st \<noteq> APPROVED"
    with ex review_execute_not_approved[of st hs e ?db1 a ?u]
    have "db' = ?db1" "rr_executionResult res = None" by auto
    with review_update_other_tables[of e db k c st cm]
    show "rr_executionResult res = None \<and> users db' = users db \<and> accounts db' = accounts db \<and>
          promotions db' = promotions db" by simp
  qed
  have created: "\<forall>hs0 e0 db0 t p m db1 a0.
            createAction hs0 e0 db0 t p m = (db1, Inr a0) \<longrightarrow>
              wa_payload a0 = p \<and> a0 \<in> set (workflowActions db1)"
    using createAction_created by blast
  from frame look look' res_action appr nappr created show ?thesis by blast
qed

lemma first_approval:
  "reviewAction sample_handlers env3 db_two_pending ''wa-1'' ''c1'' APPROVED None =
     (db_first_approved,
      Inr \<lparr>rr_action = Some action1_approved, rr_executionResult = Some (UserRow user_alice)\<rparr>)"
  by (simp add: db_first_approved_eq db_two_pending_eq reviewAction_def review_check_def
      getActionById_def review_update_def set_review_def review_execute_def handler_defs
      payload_alice_def env3_def action1_def action2_def action1_approved_def user_alice_def)

theorem reviewAction_frame_witness:
  "keeps_actions sample_handlers \<and>
   reviewAction sample_handlers env3 db_two_pending ''wa-1'' ''c1'' APPROVED None =
     (db_first_approved,
      Inr \<lparr>rr_action = Some action1_approved, rr_executionResult = Some (UserRow user_alice)\<rparr>) \<and>
   list_all2 (\<lambda>a a'. same_identity a a' \<and> (wa_id a \<noteq> ''wa-1'' \<longrightarrow> a' = a))
     (workflowActions db_two_pending) (workflowActions db_first_approved) \<and>
   (\<exists>a h. getActionById db_two_pending ''wa-1'' = Inr a \<and>
          getHandler sample_handlers (wa_actionType a) = Inr (HandlerObject h) \<and>
          execute h env3 (fst (review_update env3 db_two_pending ''wa-1'' ''c1'' APPROVED None))
            (wa_payload a) = (db_first_approved, Inr (UserRow user_alice)))"
proof -
  from reviewAction_frame[OF sample_handlers_keep_actions first_approval]
  have "list_all2 (\<lambda>a a'. same_identity a a' \<and> (wa_id a \<noteq> ''wa-1'' \<longrightarrow> a' = a))
     (workflowActions db_two_pending) (workflowActions db_first_approved)"
    and "\<exists>a h. getActionById db_two_pending ''wa-1'' = Inr a \<and>
          getHandler sample_handlers (wa_actionType a) = Inr (HandlerObject h) \<and>
          execute h env3 (fst (review_update env3 db_two_pending ''wa-1'' ''c1'' APPROVED None))
            (wa_payload a) = (db_first_approved, Inr (UserRow user_alice))"
    by auto
  with sample_handlers_keep_actions first_approval show ?thesis by blast
qed

section \<open>An approval whose execution fails\<close>

text \<open>
  C1 at the second scenario of the specification: the same user was submitted twice and
  the first submission approved. Approving the second, \<^verbatim>\<open>wa-2\<close>, fails in
  \<^verbatim>\<open>execute\<close> on the duplicate email after the update has been written: the call
  returns the execution error, no user is added, and the stored action is
  \<open>APPROVED\<close> with checker \<^verbatim>\<open>c1\<close>.
\<close>

theorem failed_execute_leaves_approved:
  "getActionById db_first_approved ''wa-2'' = Inr action2 \<and> wa_status action2 = PENDING \<and>
   reviewAction sample_handlers env4 db_first_approved ''wa-2'' ''c1'' APPROVED None =
     (\<lparr>workflowActions = [action1_approved, action2_approved], users = [user_alice],
        accounts = [], promotions = []\<rparr>,
      Inl (ExecutionError ''User with email a@x.com already exists'')) \<and>
   wa_status action2_approved = APPROVED \<and> wa_checkerId action2_approved = Some ''c1''"
proof -
  have l: "getActionById db_first_approved ''wa-2'' = Inr action2"
    by (simp add: db_first_approved_eq getActionById_def action1_approved_def action1_def
        action2_def)
  have s: "wa_status action2 = PENDING" "wa_status action2_approved = APPROVED"
    "wa_checkerId action2_approved = Some ''c1''"
    by (simp_all add: action2_def action2_approved_def)
  from l s second_approval show ?thesis by simp
qed

section \<open>Two checkers at once\<close>

text \<open>A call that is scheduled alone is \<^verbatim>\<open>reviewAction\<close>.\<close>

lemma call_steps_reviewAction:
  "run_schedule hs [c] [0, 0, 0] (db, [Start]) =
     (case reviewAction hs (rc_env c) db (rc_actionId c) (rc_checkerId c) (rc_status c)
             (rc_reviewComment c) of
        (db', r) \<Rightarrow> (db', [Finished r]))"
  by (simp add: reviewAction_def split: sum.splits prod.splits)

lemma review_update_unconditional:
  "getActionById db k = Inr a \<Longrightarrow>
   getActionById (fst (review_update e db k c st cm)) k = Inr (set_review e c st cm a)"
  by (simp add: getActionById_review_update)

text \<open>
  C2 at the fourth scenario of the specification: checker \<^verbatim>\<open>c1\<close> approves and checker
  \<^verbatim>\<open>c2\<close> rejects the pending action \<^verbatim>\<open>wa-1\<close>, and both read it before either
  writes. The update is keyed by the id alone, so both calls finish with a result and
  neither with the already-decided error: the approval creates the user, then the
  reject overwrites the approved record, which ends \<open>REJECTED\<close> by \<^verbatim>\<open>c2\<close>.
\<close>

theorem overlapping_reviews_both_succeed:
  "run_schedule sample_handlers [call_approve, call_reject] [0, 1, 0, 0, 1, 1]
     (db_one_pending, [Start, Start]) =
     (\<lparr>workflowActions = [action1_rejected_late], users = [user_alice], accounts = [],
        promotions = []\<rparr>,
      [Finished (Inr \<lparr>rr_action = Some action1_approved,
                       rr_executionResult = Some (UserRow user_alice)\<rparr>),
       Finished (Inr \<lparr>rr_action = Some action1_rejected_late, rr_executionResult = None\<rparr>)]) \<and>
   wa_status action1_rejected_late = REJECTED \<and>
   wa_checkerId action1_rejected_late = Some ''c2''"
  by (simp add: schedule_defs)

section \<open>The password of a created user\<close>

lemma CreateUserHandler_execute_success:
  assumes "CreateUserHandler_execute e db p = (db', Inr r)"
  shows "\<exists>u. r = UserRow u \<and> users db' = users db @ [u] \<and>
             u_password u = default_password_hash \<and>
             u_email u = cu_email p \<and> u_username u = cu_username p"
  using assms
  by (auto simp: CreateUserHandler_execute_def Let_def split: option.splits)

lemma CreateUserHandler_success:
  assumes "execute (CreateUserHandler rt) e db p = (db', Inr r)"
  shows "\<exists>u. r = UserRow u \<and> users db' = users db @ [u] \<and>
             u_password u = default_password_hash"
proof (cases "as_CreateUserPayload p")
  case None
  with assms show ?thesis by (simp add: CreateUserHandler_def)
next
  case (Some q)
  with assms have "CreateUserHandler_execute e db q = (db', Inr r)"
    by (simp add: CreateUserHandler_def)
  from CreateUserHandler_execute_success[OF this] show ?thesis by blast
qed

text \<open>
  C9. Whatever the payload, a user that \<^verbatim>\<open>CreateUserHandler.execute\<close> inserts has the
  one bcrypt hash written in the source as its password; so has the user created by
  approving a \<^verbatim>\<open>create_user\<close> action through \<^verbatim>\<open>reviewAction\<close> with the handlers
  of the source.
\<close>

theorem created_users_share_password:
  "(\<forall>db' r. execute (CreateUserHandler rt) e db p = (db', Inr r) \<longrightarrow>
      (\<exists>u. r = UserRow u \<and> users db' = users db @ [u] \<and>
           u_password u = ''$2b$10$4cXn4kdl6v36ARMmUZ0nvOCBGGUKtWk5X.lZRsXWLn/GgQFqaTGRe'')) \<and>
   (\<forall>a db' res.
      getActionById db k = Inr a \<and> wa_actionType a = ''create_user'' \<and>
      reviewAction (initial_handlers rt) e db k c APPROVED cm = (db', Inr res) \<longrightarrow>
      (\<exists>u. rr_executionResult res = Some (UserRow u) \<and> users db' = users db @ [u] \<and>
           u_password u = ''$2b$10$4cXn4kdl6v36ARMmUZ0nvOCBGGUKtWk5X.lZRsXWLn/GgQFqaTGRe''))"
proof (intro conjI allI impI)
  fix db' r assume "execute (CreateUserHandler rt) e db p = (db', Inr r)"
  from CreateUserHandler_success[OF this]
  show "\<exists>u. r = UserRow u \<and> users db' = users db @ [u] \<and>
           u_password u = ''$2b$10$4cXn4kdl6v36ARMmUZ0nvOCBGGUKtWk5X.lZRsXWLn/GgQFqaTGRe''"
    by (simp add: default_password_hash_def)
next
  fix a db' res
  assume h: "getActionById db k = Inr a \<and> wa_actionType a = ''create_user'' \<and>
      reviewAction (initial_handlers rt) e db k c APPROVED cm = (db', Inr res)"
  let ?db1 = "fst (review_update e db k c APPROVED cm)"
  from h reviewAction_success[of "initial_handlers rt" e db k c APPROVED cm db' res]
  obtain a0 where chk: "review_check db k c = Inr a0" and
    ex: "review_execute (initial_handlers rt) e ?db1 a0
           (snd (review_update e db k c APPROVED cm)) APPROVED = (db', Inr res)" by blast
  from chk h have "a0 = a" by (simp add: review_check_Inr)
  with ex have ex': "review_execute (initial_handlers rt) e ?db1 a
           (snd (review_update e db k c APPROVED cm)) APPROVED = (db', Inr res)" by simp
  from review_execute_approved[OF ex']
  obtain hd r where hr: "getHandler (initial_handlers rt) (wa_actionType a) = Inr (HandlerObject hd)"
    "execute hd e ?db1 (wa_payload a) = (db', Inr r)" "rr_executionResult res = Some r"
    by auto
  from hr(1) h have "hd = CreateUserHandler rt"
    by (simp add: getHandler_def get_property_def initial_handlers_def)
  with hr(2) CreateUserHandler_success[of rt e ?db1 "wa_payload a" db' r]
  obtain u where "r = UserRow u" "users db' = users ?db1 @ [u]"
    "u_password u = default_password_hash" by blast
  with hr(3) review_update_other_tables[of e db k c APPROVED cm]
  show "\<exists>u. rr_executionResult res = Some (UserRow u) \<and> users db' = users db @ [u] \<and>
           u_password u = ''$2b$10$4cXn4kdl6v36ARMmUZ0nvOCBGGUKtWk5X.lZRsXWLn/GgQFqaTGRe''"
    by (simp add: default_password_hash_def)
qed


lemma execute_alice:
  "execute (CreateUserHandler sample_runtime) env3 db_two_pending payload_alice =
     (db_two_pending\<lparr>users := [user_alice]\<rparr>, Inr (UserRow user_alice))"
  by (simp add: db_two_pending_eq handler_defs payload_alice_def env3_def user_alice_def)

theorem created_users_share_password_witness:
  "execute (CreateUserHandler sample_runtime) env3 db_two_pending payload_alice =
     (db_two_pending\<lparr>users := [user_alice]\<rparr>, Inr (UserRow user_alice)) \<and>
   u_password user_alice = ''$2b$10$4cXn4kdl6v36ARMmUZ0nvOCBGGUKtWk5X.lZRsXWLn/GgQFqaTGRe'' \<and>
   getActionById db_two_pending ''wa-1'' = Inr action1 \<and>
   wa_actionType action1 = ''create_user'' \<and>
   reviewAction (initial_handlers sample_runtime) env3 db_two_pending ''wa-1'' ''c1'' APPROVED None =
     (db_first_approved,
      Inr \<lparr>rr_action = Some action1_approved, rr_executionResult = Some (UserRow user_alice)\<rparr>)"
proof -
  have l: "getActionById db_two_pending ''wa-1'' = Inr action1"
    by (simp add: db_two_pending_eq getActionById_def action1_def)
  have t: "wa_actionType action1 = ''create_user''" by (simp add: action1_def)
  have r: "reviewAction (initial_handlers sample_runtime) env3 db_two_pending ''wa-1'' ''c1''
             APPROVED None =
     (db_first_approved,
      Inr \<lparr>rr_action = Some action1_approved, rr_executionResult = Some (UserRow user_alice)\<rparr>)"
    using first_approval by (simp add: sample_handlers_def)
  from created_users_share_password[of sample_runtime env3 db_two_pending payload_alice]
    execute_alice
  have "u_password user_alice = ''$2b$10$4cXn4kdl6v36ARMmUZ0nvOCBGGUKtWk5X.lZRsXWLn/GgQFqaTGRe''"
    by auto
  with execute_alice l t r show ?thesis by simp
qed

section \<open>Validating a promotion\<close>

lemma parseFloat_15_5: "parseFloat ''15.5'' = Some (31 / 2)"
  by (simp add: parseFloat_def is_digit_def digits_value_def digit_value_def)

lemma parseFloat_100_01: "parseFloat ''100.01'' = Some (10001 / 100)"
  by (simp add: parseFloat_def is_digit_def digits_value_def digit_value_def)

lemma matches_decimal_samples: "matches_decimal ''15.5''" "matches_decimal ''100.01''" "matches_decimal ''5''"
  "\<not> matches_decimal ''-5''" "\<not> matches_decimal ''5.123''" "\<not> matches_decimal ''5.''"
  by (simp_all add: matches_decimal_def is_digit_def)

lemma parseFloat_nonneg:
  assumes "matches_decimal s"
  shows "\<exists>v. parseFloat s = Some v \<and> 0 \<le> v"
proof -
  from assms have ip: "takeWhile is_digit s \<noteq> []"
    by (simp add: matches_decimal_def Let_def)
  then show ?thesis
    by (cases "dropWhile is_digit s") (simp_all add: parseFloat_def Let_def del: dropWhile_eq_Nil_conv)
qed

lemma validate_sample:
  "CreatePromotionHandler_validate sample_runtime payload_promotion = Inr ()"
  "CreatePromotionHandler_validate sample_runtime payload_promotion_over =
     Inl (ValidationError ''Percentage discount must be between 0 and 100'')"
  "CreatePromotionHandler_validate sample_runtime payload_promotion_backwards =
     Inl (ValidationError ''End date must be after start date'')"
  by (simp_all add: CreatePromotionHandler_validate_def createPromotionSchema_def
      as_CreatePromotionPayload_def payload_promotion_def payload_promotion_over_def
      payload_promotion_backwards_def sample_runtime_def dateString_def matches_decimal_samples
      parseFloat_15_5 parseFloat_100_01 date_le_def num_lt_def num_gt_def Let_def)


lemma createPromotionSchema_parts:
  assumes "createPromotionSchema rt payload"
  shows "\<exists>p s e v. as_CreatePromotionPayload payload = Some p \<and>
           date_parse rt (cp_startDate p) = Some s \<and> date_parse rt (cp_endDate p) = Some e \<and>
           parseFloat (cp_discountValue p) = Some v \<and> 0 \<le> v"
proof -
  from assms obtain p where p: "as_CreatePromotionPayload payload = Some p"
    and m: "matches_decimal (cp_discountValue p)"
    and d: "date_parse rt (cp_startDate p) \<noteq> None" "date_parse rt (cp_endDate p) \<noteq> None"
    by (auto simp: createPromotionSchema_def dateString_def split: option.splits)
  from parseFloat_nonneg[OF m] d p show ?thesis by auto
qed

lemma validate_promotion_ok_iff:
  "CreatePromotionHandler_validate rt payload = Inr () \<longleftrightarrow>
     createPromotionSchema rt payload \<and>
     (\<exists>p s e v. as_CreatePromotionPayload payload = Some p \<and>
        date_parse rt (cp_startDate p) = Some s \<and> date_parse rt (cp_endDate p) = Some e \<and>
        parseFloat (cp_discountValue p) = Some v \<and>
        s < e \<and>
        (cp_discountType p = ''percentage'' \<longrightarrow> 0 \<le> v \<and> v \<le> 100) \<and>
        (cp_discountType p = ''fixed'' \<longrightarrow> 0 \<le> v))"
proof (cases "createPromotionSchema rt payload")
  case False
  then show ?thesis by (simp add: CreatePromotionHandler_validate_def)
next
  case True
  from createPromotionSchema_parts[OF True] obtain p s e v where
    parts: "as_CreatePromotionPayload payload = Some p"
    "date_parse rt (cp_startDate p) = Some s" "date_parse rt (cp_endDate p) = Some e"
    "parseFloat (cp_discountValue p) = Some v" "0 \<le> v" by blast
  with True show ?thesis
    by (auto simp: CreatePromotionHandler_validate_def Let_def date_le_def num_lt_def num_gt_def)
qed

lemma validate_promotion_error:
  "CreatePromotionHandler_validate rt payload = Inl err \<Longrightarrow> \<exists>msg. err = ValidationError msg"
  by (auto simp: CreatePromotionHandler_validate_def Let_def split: if_splits option.splits)

text \<open>
  C8. \<^verbatim>\<open>CreatePromotionHandler.validate\<close> succeeds exactly when the payload passes the
  schema, its end date is strictly after its start date, and its discount value is not
  negative and, for a percentage, at most 100; in every other case it fails, and always
  with a validation error. So it fails whenever the end date is not strictly after the
  start date, whenever a percentage is outside 0 to 100, and whenever a fixed discount
  is negative (a sign already fails the schema's pattern). It is a function of the
  payload alone: it is given no database and returns nothing but the outcome.
\<close>

theorem CreatePromotionHandler_validate_exact:
  "(CreatePromotionHandler_validate rt payload = Inr () \<longleftrightarrow>
     createPromotionSchema rt payload \<and>
     (\<exists>p s e v. as_CreatePromotionPayload payload = Some p \<and>
        date_parse rt (cp_startDate p) = Some s \<and> date_parse rt (cp_endDate p) = Some e \<and>
        parseFloat (cp_discountValue p) = Some v \<and>
        s < e \<and>
        (cp_discountType p = ''percentage'' \<longrightarrow> 0 \<le> v \<and> v \<le> 100) \<and>
        (cp_discountType p = ''fixed'' \<longrightarrow> 0 \<le> v))) \<and>
   (\<forall>err. CreatePromotionHandler_validate rt payload = Inl err \<longrightarrow>
      (\<exists>msg. err = ValidationError msg)) \<and>
   validate (CreatePromotionHandler rt) = CreatePromotionHandler_validate rt"
  using validate_promotion_ok_iff[of rt payload] validate_promotion_error[of rt payload]
  by (simp add: CreatePromotionHandler_def)

theorem CreatePromotionHandler_validate_exact_witness:
  "CreatePromotionHandler_validate sample_runtime payload_promotion = Inr () \<and>
   createPromotionSchema sample_runtime payload_promotion \<and>
   (\<exists>p. as_CreatePromotionPayload payload_promotion = Some p \<and>
        cp_discountType p = ''percentage'' \<and> parseFloat (cp_discountValue p) = Some (31 / 2) \<and>
        date_parse sample_runtime (cp_startDate p) = Some 1704067200000 \<and>
        date_parse sample_runtime (cp_endDate p) = Some 1735603200000) \<and>
   CreatePromotionHandler_validate sample_runtime payload_promotion_over =
     Inl (ValidationError ''Percentage discount must be between 0 and 100'') \<and>
   CreatePromotionHandler_validate sample_runtime payload_promotion_backwards =
     Inl (ValidationError ''End date must be after start date'')"
proof -
  have p: "as_CreatePromotionPayload payload_promotion =
             Some \<lparr>cp_code = ''SPRING'', cp_name = ''Spring sale'', cp_description = None,
                   cp_discountType = ''percentage'', cp_discountValue = ''15.5'',
                   cp_startDate = ''2024-01-01'', cp_endDate = ''2024-12-31''\<rparr>"
    by (simp add: as_CreatePromotionPayload_def payload_promotion_def)
  have sch: "createPromotionSchema sample_runtime payload_promotion"
    by (simp add: createPromotionSchema_def p dateString_def sample_runtime_def matches_decimal_samples)
  have d: "date_parse sample_runtime ''2024-01-01'' = Some 1704067200000"
    "date_parse sample_runtime ''2024-12-31'' = Some 1735603200000"
    by (simp_all add: sample_runtime_def)
  have rules: "\<exists>p s e v. as_CreatePromotionPayload payload_promotion = Some p \<and>
        date_parse sample_runtime (cp_startDate p) = Some s \<and>
        date_parse sample_runtime (cp_endDate p) = Some e \<and>
        parseFloat (cp_discountValue p) = Some v \<and> s < e \<and>
        (cp_discountType p = ''percentage'' \<longrightarrow> 0 \<le> v \<and> v \<le> 100) \<and>
        (cp_discountType p = ''fixed'' \<longrightarrow> 0 \<le> v)"
    using p d parseFloat_15_5
    by (intro exI[of _ "\<lparr>cp_code = ''SPRING'', cp_name = ''Spring sale'', cp_description = None,
                   cp_discountType = ''percentage'', cp_discountValue = ''15.5'',
                   cp_startDate = ''2024-01-01'', cp_endDate = ''2024-12-31''\<rparr>"]
        exI[of _ 1704067200000] exI[of _ 1735603200000] exI[of _ "31 / 2"]) simp
  from CreatePromotionHandler_validate_exact[of sample_runtime payload_promotion] sch rules
  have ok: "CreatePromotionHandler_validate sample_runtime payload_promotion = Inr ()"
    by blast
  from ok sch p d parseFloat_15_5 validate_sample(2,3) show ?thesis by simp
qed

end
